theory Spec2Isabelle
  imports Main "HOL-Library.Word" "HOL-Library.Signed_Division" "HOL-Library.Monad_Syntax"
begin

unbundle bit_operations_syntax

section \<open>The light service of \<^verbatim>\<open>light/Light.cpp\<close>\<close>

text \<open>
  A shallow embedding of \<^verbatim>\<open>src/light/Light.cpp\<close>. The C++ types \<^verbatim>\<open>int\<close>,
  \<^verbatim>\<open>int32_t\<close> and \<^verbatim>\<open>uint32_t\<close> are 32-bit words; addition, subtraction and
  multiplication wrap modulo \<open>2 ^ 32\<close>, signed comparison is \<open><s\<close>, and every division
  of the source goes through a checked operation that yields \<open>None\<close> where C++ leaves the
  quotient undefined, so that a function of the model returns \<open>Some\<close> exactly when no
  such division is met.

  Every \<^verbatim>\<open>stream << value << std::endl\<close> of the source is one entry of a list of
  writes, in program order: the stream written to and the text of the value (the line
  terminator is left implicit). The \<^verbatim>\<open>LOG\<close> statements are not writes to a control
  file and are left out. The mutex \<^verbatim>\<open>mLock\<close> makes each handler one atomic step; the
  model is sequential.
\<close>

subsection \<open>Data\<close>

type_synonym uint32_t = "32 word"
type_synonym int32_t = "32 word"

text \<open>The enumerations and \<^verbatim>\<open>LightState\<close> of the light HAL, version 2.0.\<close>

datatype Type = BACKLIGHT | KEYBOARD | BUTTONS | BATTERY | NOTIFICATIONS | ATTENTION
  | BLUETOOTH | WIFI

datatype Flash = NONE | TIMED | HARDWARE

datatype Brightness = USER | SENSOR | LOW_PERSISTENCE

datatype Status = SUCCESS | LIGHT_NOT_SUPPORTED | BRIGHTNESS_NOT_SUPPORTED | UNKNOWN

record LightState =
  color :: uint32_t
  flashMode :: Flash
  flashOnMs :: int32_t
  flashOffMs :: int32_t
  brightnessMode :: Brightness

text \<open>
  The seven output streams of a \<^verbatim>\<open>Led\<close>, opened by its constructor under
  \<^verbatim>\<open>/sys/class/leds/<name>/\<close>, and the two streams the \<^verbatim>\<open>Light\<close> object owns itself.
\<close>

datatype led_attr = mBrightness | mDutyPcts | mStartIdx | mPauseLo | mPauseHi | mRampStepMs
  | mBlink

datatype stream = LcdBacklightStream | RgbBlinkStream | LedStream string led_attr

type_synonym line_write = "stream \<times> string"

record Led =
  mIndex :: int32_t
  mName :: string

record Light =
  mLcdBacklight_second :: uint32_t
  mRedLed :: Led
  mGreenLed :: Led
  mBlueLed :: Led
  mAttentionState :: LightState
  mBatteryState :: LightState
  mNotificationState :: LightState

subsection \<open>Arithmetic and text of the C++ runtime\<close>

text \<open>
  Signed \<^verbatim>\<open>/\<close> truncates towards zero and is undefined for a zero divisor and for
  \<^verbatim>\<open>INT_MIN / -1\<close>; unsigned \<^verbatim>\<open>/\<close> is undefined for a zero divisor.
\<close>

definition sdiv32 :: "int32_t \<Rightarrow> int32_t \<Rightarrow> int32_t option" where
  "sdiv32 a b =
     (if b = 0 \<or> (sint a = - (2 ^ 31) \<and> sint b = - 1) then None
      else Some (word_of_int (sint a sdiv sint b)))"

definition udiv32 :: "uint32_t \<Rightarrow> uint32_t \<Rightarrow> uint32_t option" where
  "udiv32 a b = (if b = 0 then None else Some (a div b))"

text \<open>Decimal text of an integer, as \<^verbatim>\<open>std::to_string\<close> and \<^verbatim>\<open>operator<<\<close> print it.\<close>

definition digit_char :: "nat \<Rightarrow> char" where
  "digit_char d = ''0123456789'' ! d"

fun digits10 :: "nat \<Rightarrow> string" where
  "digits10 n =
     (if n < 10 then [digit_char n]
      else digits10 (n div 10) @ [digit_char (n mod 10)])"

declare digits10.simps [simp del]

definition to_string :: "int \<Rightarrow> string" where
  "to_string i = (if i < 0 then CHR ''-'' # digits10 (nat (- i)) else digits10 (nat i))"

subsection \<open>The anonymous namespace\<close>

definition RAMP_SIZE :: int32_t where
  "RAMP_SIZE = 8"

definition RAMP_STEP_DURATION :: int32_t where
  "RAMP_STEP_DURATION = 50"

definition BRIGHTNESS_RAMP :: "int32_t list" where
  "BRIGHTNESS_RAMP = [0, 12, 25, 37, 50, 72, 85, 100]"

definition MAX_BRIGHTNESS :: int32_t where
  "MAX_BRIGHTNESS = 255"

definition rgbToBrightness :: "LightState \<Rightarrow> uint32_t" where
  "rgbToBrightness state =
     (let color = color state AND 0x00ffffff
      in drop_bit 8 (77 * (drop_bit 16 color AND 0xff) + 150 * (drop_bit 8 color AND 0xff)
           + 29 * (color AND 0xff)))"

definition isLit :: "LightState \<Rightarrow> bool" where
  "isLit state \<longleftrightarrow> color state AND 0x00ffffff \<noteq> 0"

text \<open>
  The loop of \<^verbatim>\<open>getScaledDutyPcts\<close> over the ramp, with its two local strings
  \<^verbatim>\<open>buf\<close> and \<^verbatim>\<open>pad\<close> as the accumulator.
\<close>

fun getScaledDutyPcts_loop :: "int32_t \<Rightarrow> int32_t list \<Rightarrow> string \<Rightarrow> string \<Rightarrow> string option"
  where
  "getScaledDutyPcts_loop brightness [] buf pad = Some buf"
| "getScaledDutyPcts_loop brightness (i # rest) buf pad =
     do {
       q \<leftarrow> sdiv32 (i * brightness) 255;
       getScaledDutyPcts_loop brightness rest ((buf @ pad) @ to_string (sint q)) '',''
     }"

definition getScaledDutyPcts :: "int32_t \<Rightarrow> string option" where
  "getScaledDutyPcts brightness = getScaledDutyPcts_loop brightness BRIGHTNESS_RAMP [] []"

subsection \<open>Led\<close>

definition setBrightness :: "Led \<Rightarrow> int32_t \<Rightarrow> line_write list" where
  "setBrightness led val =
     [(LedStream (mName led) mBlink, to_string 0),
      (LedStream (mName led) mBrightness, to_string (sint val))]"

definition setBlink :: "Led \<Rightarrow> int32_t \<Rightarrow> int32_t \<Rightarrow> int32_t \<Rightarrow> line_write list option" where
  "setBlink led brightness onMs offMs =
     do {
       let stepDuration = RAMP_STEP_DURATION;
       let pauseHi = onMs - stepDuration * RAMP_SIZE * 2;
       (stepDuration, pauseHi) \<leftarrow>
         (if onMs <s stepDuration * RAMP_SIZE * 2
          then do { q \<leftarrow> sdiv32 onMs (RAMP_SIZE * 2); Some (q, 0) }
          else Some (stepDuration, pauseHi));
       duty \<leftarrow> getScaledDutyPcts brightness;
       Some [(LedStream (mName led) mStartIdx, to_string (sint (mIndex led * RAMP_SIZE))),
             (LedStream (mName led) mDutyPcts, duty),
             (LedStream (mName led) mPauseLo, to_string (sint offMs)),
             (LedStream (mName led) mPauseHi, to_string (sint pauseHi)),
             (LedStream (mName led) mRampStepMs, to_string (sint stepDuration))]
     }"

text \<open>
  Modelled from the spec: \<^verbatim>\<open>Led::off\<close> is declared in \<^verbatim>\<open>Light.h\<close>, which is not among
  the sources. The specification describes turning a channel off as the equivalent of
  \<^verbatim>\<open>setSteady(0)\<close>: blinking disabled, brightness 0.
\<close>

definition off :: "Led \<Rightarrow> line_write list" where
  "off led = setBrightness led 0"

subsection \<open>Light\<close>

text \<open>
  Lines 211 to 227 of \<^verbatim>\<open>setSpeakerLightLocked\<close>: the alpha byte and the three colour
  bytes, scaled by alpha unless alpha is \<^verbatim>\<open>0xff\<close>.
\<close>

definition setSpeakerLightLocked_scale :: "LightState \<Rightarrow> (int32_t \<times> int32_t \<times> int32_t) option"
  where
  "setSpeakerLightLocked_scale state =
     do {
       let alpha = drop_bit 24 (color state) AND 0xff;
       let red = drop_bit 16 (color state) AND 0xff;
       let green = drop_bit 8 (color state) AND 0xff;
       let blue = color state AND 0xff;
       if alpha \<noteq> 0xff
       then do {
         red \<leftarrow> udiv32 (red * alpha) 0xff;
         green \<leftarrow> udiv32 (green * alpha) 0xff;
         blue \<leftarrow> udiv32 (blue * alpha) 0xff;
         Some (red, green, blue)
       }
       else Some (red, green, blue)
     }"

text \<open>Lines 229 to 246: the writes for the three channel values.\<close>

definition setSpeakerLightLocked_drive ::
  "Light \<Rightarrow> LightState \<Rightarrow> int32_t \<Rightarrow> int32_t \<Rightarrow> int32_t \<Rightarrow> line_write list option" where
  "setSpeakerLightLocked_drive l state red green blue =
     (case flashMode state of
        TIMED \<Rightarrow>
          do {
            r \<leftarrow> setBlink (mRedLed l) red (flashOnMs state) (flashOffMs state);
            g \<leftarrow> setBlink (mGreenLed l) green (flashOnMs state) (flashOffMs state);
            b \<leftarrow> setBlink (mBlueLed l) blue (flashOnMs state) (flashOffMs state);
            Some ([(RgbBlinkStream, to_string 0)] @ r @ g @ b @ [(RgbBlinkStream, to_string 1)])
          }
      | _ \<Rightarrow>
          Some ([(RgbBlinkStream, to_string 0)] @ setBrightness (mRedLed l) red
                @ setBrightness (mGreenLed l) green @ setBrightness (mBlueLed l) blue))"

definition setSpeakerLightLocked :: "Light \<Rightarrow> LightState \<Rightarrow> line_write list option" where
  "setSpeakerLightLocked l state =
     do {
       (red, green, blue) \<leftarrow> setSpeakerLightLocked_scale state;
       setSpeakerLightLocked_drive l state red green blue
     }"

definition setSpeakerBatteryLightLocked :: "Light \<Rightarrow> line_write list option" where
  "setSpeakerBatteryLightLocked l =
     (if isLit (mNotificationState l) then setSpeakerLightLocked l (mNotificationState l)
      else if isLit (mAttentionState l) then setSpeakerLightLocked l (mAttentionState l)
      else if isLit (mBatteryState l) then setSpeakerLightLocked l (mBatteryState l)
      else Some (off (mRedLed l) @ off (mGreenLed l) @ off (mBlueLed l)))"

definition setAttentionLight :: "Light \<Rightarrow> LightState \<Rightarrow> (Light \<times> line_write list) option" where
  "setAttentionLight l state =
     do {
       let l' = l\<lparr>mAttentionState := state\<rparr>;
       ws \<leftarrow> setSpeakerBatteryLightLocked l';
       Some (l', ws)
     }"

definition setLcdBacklight :: "Light \<Rightarrow> LightState \<Rightarrow> (Light \<times> line_write list) option" where
  "setLcdBacklight l state =
     do {
       let brightness = rgbToBrightness state;
       brightness \<leftarrow>
         (if mLcdBacklight_second l \<noteq> MAX_BRIGHTNESS
          then udiv32 (brightness * mLcdBacklight_second l) MAX_BRIGHTNESS
          else Some brightness);
       Some (l, [(LcdBacklightStream, to_string (uint brightness))])
     }"

definition setBatteryLight :: "Light \<Rightarrow> LightState \<Rightarrow> (Light \<times> line_write list) option" where
  "setBatteryLight l state =
     do {
       let l' = l\<lparr>mBatteryState := state\<rparr>;
       ws \<leftarrow> setSpeakerBatteryLightLocked l';
       Some (l', ws)
     }"

definition setNotificationLight :: "Light \<Rightarrow> LightState \<Rightarrow> (Light \<times> line_write list) option" where
  "setNotificationLight l state =
     do {
       let l' = l\<lparr>mNotificationState := state\<rparr>;
       ws \<leftarrow> setSpeakerBatteryLightLocked l';
       Some (l', ws)
     }"

text \<open>
  The table \<^verbatim>\<open>mLights\<close>, filled once by the constructor with the four bound member
  functions and never changed afterwards.
\<close>

datatype handler = attnFn | backlightFn | batteryFn | notifFn

definition mLights :: "Type \<rightharpoonup> handler" where
  "mLights =
     [ATTENTION \<mapsto> attnFn, BACKLIGHT \<mapsto> backlightFn, BATTERY \<mapsto> batteryFn,
      NOTIFICATIONS \<mapsto> notifFn]"

fun invoke :: "handler \<Rightarrow> Light \<Rightarrow> LightState \<Rightarrow> (Light \<times> line_write list) option" where
  "invoke attnFn l state = setAttentionLight l state"
| "invoke backlightFn l state = setLcdBacklight l state"
| "invoke batteryFn l state = setBatteryLight l state"
| "invoke notifFn l state = setNotificationLight l state"

definition setLight :: "Light \<Rightarrow> Type \<Rightarrow> LightState \<Rightarrow> (Status \<times> Light \<times> line_write list) option"
  where
  "setLight l type state =
     (case mLights type of
        None \<Rightarrow> Some (LIGHT_NOT_SUPPORTED, l, [])
      | Some f \<Rightarrow> do { (l', ws) \<leftarrow> invoke f l state; Some (SUCCESS, l', ws) })"

subsection \<open>Notions of the specification\<close>

text \<open>
  The specification speaks of the bytes of a colour, of a comma-joined list of duty
  values, and of rounding. These definitions follow its words; the theorems below compare
  them with the functions above.
\<close>

definition byte_of :: "uint32_t \<Rightarrow> nat \<Rightarrow> nat" where
  "byte_of w k = unat w div 256 ^ k mod 256"

fun comma_join :: "string list \<Rightarrow> string" where
  "comma_join [] = []"
| "comma_join [x] = x"
| "comma_join (x # y # ys) = x @ '','' @ comma_join (y # ys)"

definition curve :: "int list" where
  "curve = [0, 12, 25, 37, 50, 72, 85, 100]"

definition truncated_duty_pcts :: "int \<Rightarrow> string" where
  "truncated_duty_pcts b = comma_join (map (\<lambda>c. to_string (c * b div 255)) curve)"

text \<open>Rounding a quotient to the nearest integer (a quotient by 255 is never a tie).\<close>

definition round_nearest :: "int \<Rightarrow> int \<Rightarrow> int" where
  "round_nearest a b = (2 * a + b) div (2 * b)"

definition rounded_duty_pcts :: "int \<Rightarrow> string" where
  "rounded_duty_pcts b = comma_join (map (\<lambda>c. to_string (round_nearest (c * b) 255)) curve)"

text \<open>Alpha as a dimmer: a channel byte scaled by \<open>alpha / 255\<close> unless alpha is 255.\<close>

definition dimmed :: "nat \<Rightarrow> nat \<Rightarrow> nat" where
  "dimmed alpha c = (if alpha \<noteq> 255 then c * alpha div 255 else c)"

text \<open>The luma of a colour: \<open>(77R + 150G + 29B) / 256\<close>, truncated.\<close>

definition luma :: "uint32_t \<Rightarrow> nat" where
  "luma c = (77 * byte_of c 2 + 150 * byte_of c 1 + 29 * byte_of c 0) div 256"

text \<open>
  The backlight value as the specification states it, on unbounded numbers, and the value
  that the \<^verbatim>\<open>uint32_t\<close> product of \<^verbatim>\<open>setLcdBacklight\<close> yields.
\<close>

definition backlight_claimed :: "nat \<Rightarrow> uint32_t \<Rightarrow> nat" where
  "backlight_claimed maxBrightness c =
     (if maxBrightness \<noteq> 255 then luma c * maxBrightness div 255 else luma c)"

definition backlight_written :: "nat \<Rightarrow> uint32_t \<Rightarrow> nat" where
  "backlight_written maxBrightness c =
     (if maxBrightness \<noteq> 255 then (luma c * maxBrightness mod 2 ^ 32) div 255 else luma c)"

text \<open>Sample objects for the concrete instances below.\<close>

definition green_led :: Led where
  "green_led = \<lparr>mIndex = 1, mName = ''green''\<rparr>"

definition dark_state :: LightState where
  "dark_state =
     \<lparr>color = 0, flashMode = NONE, flashOnMs = 0, flashOffMs = 0, brightnessMode = USER\<rparr>"

definition white_state :: LightState where
  "white_state = dark_state\<lparr>color := 0x00FFFFFF\<rparr>"

definition sample_light :: Light where
  "sample_light =
     \<lparr>mLcdBacklight_second = 255,
      mRedLed = \<lparr>mIndex = 0, mName = ''red''\<rparr>,
      mGreenLed = \<lparr>mIndex = 1, mName = ''green''\<rparr>,
      mBlueLed = \<lparr>mIndex = 2, mName = ''blue''\<rparr>,
      mAttentionState = dark_state, mBatteryState = dark_state,
      mNotificationState = dark_state\<rparr>"

definition red_state :: LightState where
  "red_state = dark_state\<lparr>color := 0xFFFF0000\<rparr>"

definition blinking_state :: LightState where
  "blinking_state = red_state\<lparr>flashMode := TIMED, flashOnMs := 1000, flashOffMs := 400\<rparr>"

definition masked_state :: LightState where
  "masked_state = dark_state\<lparr>color := 0x00FF0000\<rparr>"

definition green_state :: LightState where
  "green_state = dark_state\<lparr>color := 0xFF00FF00\<rparr>"

definition wide_panel_light :: Light where
  "wide_panel_light = sample_light\<lparr>mLcdBacklight_second := 0x80000000\<rparr>"

section \<open>Properties\<close>

subsection \<open>Arithmetic lemmas\<close>

lemma sdiv32_255: "sdiv32 a 255 = Some (word_of_int (sint a sdiv 255))"
  by (simp add: sdiv32_def)

lemma sdiv32_16: "sdiv32 a 16 = Some (word_of_int (sint a sdiv 16))"
  by (simp add: sdiv32_def)

lemma sint32_bounds:
  fixes w :: "32 word"
  shows "- 2147483648 \<le> sint w" "sint w < 2147483648"
  using sint_ge [of w] sint_lt [of w] by simp_all

lemma sdiv_nonneg: "0 \<le> (k::int) \<Longrightarrow> 0 < l \<Longrightarrow> k sdiv l = k div l"
  by (cases "k = 0") (simp_all add: signed_divide_int_def)

lemma sint_small_mult:
  fixes i b :: "32 word"
  assumes "0 \<le> sint i" "sint i \<le> 100" "0 \<le> sint b" "sint b \<le> 255"
  shows "sint (i * b) = sint i * sint b"
proof -
  have "sint i * sint b \<le> 100 * 255"
    using assms by (intro mult_mono) auto
  moreover have "0 \<le> sint i * sint b"
    using assms by simp
  ultimately show ?thesis
    by (simp add: sint_word_mult signed_take_bit_int_eq_self)
qed

lemma sint_duty:
  fixes i b :: "32 word"
  assumes "0 \<le> sint i" "sint i \<le> 100" "0 \<le> sint b" "sint b \<le> 255"
  shows "sint (word_of_int (sint i * sint b div 255) :: 32 word) = sint i * sint b div 255"
proof -
  have "sint i * sint b \<le> 100 * 255"
    using assms by (intro mult_mono) auto
  then have "sint i * sint b div 255 \<le> 100"
    by simp
  moreover have "0 \<le> sint i * sint b div 255"
    using assms by (simp add: pos_imp_zdiv_nonneg_iff)
  ultimately show ?thesis
    by (simp add: sint_sbintrunc' signed_take_bit_int_eq_self)
qed

lemma sint_sub_800:
  fixes onMs :: "32 word"
  assumes "800 \<le> sint onMs"
  shows "sint (onMs - 800) = sint onMs - 800"
  using assms sint32_bounds [of onMs]
  by (simp add: sint_word_ariths signed_take_bit_int_eq_self)

lemma sdiv_16_bounds:
  fixes a :: int
  assumes "- 2147483648 \<le> a" "a < 2147483648"
  shows "- 2147483648 \<le> a sdiv 16" "a sdiv 16 < 2147483648"
proof -
  show "- 2147483648 \<le> a sdiv 16"
    using assms by (cases "0 \<le> a") (simp_all add: signed_divide_int_def sgn_if, linarith+)
  show "a sdiv 16 < 2147483648"
    using assms by (cases "0 \<le> a") (simp_all add: signed_divide_int_def sgn_if, linarith+)
qed

lemma sint_sdiv_16:
  fixes onMs :: "32 word"
  shows "sint (word_of_int (sint onMs sdiv 16) :: 32 word) = sint onMs sdiv 16"
  using sdiv_16_bounds [OF sint32_bounds [of onMs]]
  by (simp add: sint_sbintrunc' signed_take_bit_int_eq_self)

lemma sint_times_8:
  fixes i :: "32 word"
  assumes "- 268435456 \<le> sint i" "sint i < 268435456"
  shows "sint (i * 8) = sint i * 8"
  using assms by (simp add: sint_word_mult signed_take_bit_int_eq_self)

subsection \<open>The duty-cycle list\<close>

lemma loop_step:
  fixes i b :: "32 word"
  assumes "0 \<le> sint i" "sint i \<le> 100" "0 \<le> sint b" "sint b \<le> 255"
  shows "getScaledDutyPcts_loop b (i # rest) buf pad =
         getScaledDutyPcts_loop b rest ((buf @ pad) @ to_string (sint i * sint b div 255)) '',''"
  using assms by (simp add: sdiv32_255 sint_small_mult sdiv_nonneg sint_duty)

lemma getScaledDutyPcts_in_range:
  assumes "0 \<le> sint b" "sint b \<le> 255"
  shows "getScaledDutyPcts b = Some (truncated_duty_pcts (sint b))"
  using assms
  by (simp add: getScaledDutyPcts_def BRIGHTNESS_RAMP_def loop_step truncated_duty_pcts_def
      curve_def del: getScaledDutyPcts_loop.simps(2))

lemma loop_total: "\<exists>s. getScaledDutyPcts_loop b cs buf pad = Some s"
  by (induction cs arbitrary: buf pad) (simp_all add: sdiv32_255)

lemma getScaledDutyPcts_total: "\<exists>s. getScaledDutyPcts b = Some s"
  by (simp add: getScaledDutyPcts_def loop_total)

lemma getScaledDutyPcts_255: "getScaledDutyPcts 255 = Some ''0,12,25,37,50,72,85,100''"
  by (simp add: getScaledDutyPcts_def BRIGHTNESS_RAMP_def sdiv32_def signed_divide_int_def
      to_string_def digits10.simps digit_char_def)

lemma getScaledDutyPcts_0: "getScaledDutyPcts 0 = Some ''0,0,0,0,0,0,0,0''"
  by (simp add: getScaledDutyPcts_def BRIGHTNESS_RAMP_def sdiv32_def signed_divide_int_def
      to_string_def digits10.simps digit_char_def)

lemma getScaledDutyPcts_100: "getScaledDutyPcts 100 = Some ''0,4,9,14,19,28,33,39''"
  by (simp add: getScaledDutyPcts_def BRIGHTNESS_RAMP_def sdiv32_def signed_divide_int_def
      to_string_def digits10.simps digit_char_def)

lemma rounded_duty_pcts_100: "rounded_duty_pcts 100 = ''0,5,10,15,20,28,33,39''"
  by (simp add: rounded_duty_pcts_def curve_def round_nearest_def to_string_def digits10.simps digit_char_def)

lemma truncated_duty_pcts_100: "truncated_duty_pcts 100 = ''0,4,9,14,19,28,33,39''"
  by (simp add: truncated_duty_pcts_def curve_def to_string_def digits10.simps digit_char_def)

subsection \<open>Led::setBlink\<close>

lemma setBlink_eq:
  "setBlink led brightness onMs offMs =
     map_option (\<lambda>duty.
       [(LedStream (mName led) mStartIdx, to_string (sint (mIndex led * 8))),
        (LedStream (mName led) mDutyPcts, duty),
        (LedStream (mName led) mPauseLo, to_string (sint offMs)),
        (LedStream (mName led) mPauseHi,
           to_string (if 800 \<le> sint onMs then sint onMs - 800 else 0)),
        (LedStream (mName led) mRampStepMs,
           to_string (if 800 \<le> sint onMs then 50 else sint onMs sdiv 16))])
      (getScaledDutyPcts brightness)"
proof (cases "800 \<le> sint onMs")
  case True
  then have "\<not> onMs <s 800"
    by (simp add: word_sless_alt)
  with True show ?thesis
    by (cases "getScaledDutyPcts brightness")
       (simp_all add: setBlink_def RAMP_STEP_DURATION_def RAMP_SIZE_def sint_sub_800)
next
  case False
  then have "onMs <s 800"
    by (simp add: word_sless_alt)
  with False show ?thesis
    by (cases "getScaledDutyPcts brightness")
       (simp_all add: setBlink_def RAMP_STEP_DURATION_def RAMP_SIZE_def sdiv32_16 sint_sdiv_16)
qed

lemma to_string_small:
  "to_string 0 = ''0''" "to_string 1 = ''1''" "to_string 8 = ''8''" "to_string 25 = ''25''"
  "to_string 50 = ''50''" "to_string 200 = ''200''" "to_string 1000 = ''1000''"
  "to_string 128 = ''128''" "to_string 255 = ''255''"
  by (simp_all add: to_string_def digits10.simps digit_char_def)

text \<open>
  Claim C2. For every brightness, on-time and off-time, \<^verbatim>\<open>setBlink\<close> on a channel with
  index \<open>i\<close> writes the start index \<open>i * 8\<close> (exactly \<open>i \<times> 8\<close> as long as the product
  fits the channel's \<^verbatim>\<open>int\<close>), the off-time as pause-low, and: for an on-time of at
  least 800 the step duration 50 and the pause-high \<open>onMs - 800\<close>; otherwise the step
  duration \<open>onMs / 16\<close> (the truncating division of C++) and the pause-high 0. An on-time
  of 400 gives step duration 25 and pause-high 0, one of 1000 gives 50 and 200.
\<close>

theorem setBlink_ramp_timing:
  "(\<exists>duty. setBlink led brightness onMs offMs = Some
       [(LedStream (mName led) mStartIdx, to_string (sint (mIndex led * 8))),
        (LedStream (mName led) mDutyPcts, duty),
        (LedStream (mName led) mPauseLo, to_string (sint offMs)),
        (LedStream (mName led) mPauseHi,
           to_string (if 800 \<le> sint onMs then sint onMs - 800 else 0)),
        (LedStream (mName led) mRampStepMs,
           to_string (if 800 \<le> sint onMs then 50 else sint onMs sdiv 16))]) \<and>
   (- 268435456 \<le> sint (mIndex led) \<and> sint (mIndex led) < 268435456 \<longrightarrow>
      sint (mIndex led * 8) = sint (mIndex led) * 8) \<and>
   (\<exists>duty. setBlink led brightness 400 offMs = Some
       [(LedStream (mName led) mStartIdx, to_string (sint (mIndex led * 8))),
        (LedStream (mName led) mDutyPcts, duty),
        (LedStream (mName led) mPauseLo, to_string (sint offMs)),
        (LedStream (mName led) mPauseHi, ''0''),
        (LedStream (mName led) mRampStepMs, ''25'')]) \<and>
   (\<exists>duty. setBlink led brightness 1000 offMs = Some
       [(LedStream (mName led) mStartIdx, to_string (sint (mIndex led * 8))),
        (LedStream (mName led) mDutyPcts, duty),
        (LedStream (mName led) mPauseLo, to_string (sint offMs)),
        (LedStream (mName led) mPauseHi, ''200''),
        (LedStream (mName led) mRampStepMs, ''50'')])"
proof -
  obtain duty where duty: "getScaledDutyPcts brightness = Some duty"
    using getScaledDutyPcts_total by blast
  have general: "\<exists>duty. setBlink led brightness onMs offMs = Some
       [(LedStream (mName led) mStartIdx, to_string (sint (mIndex led * 8))),
        (LedStream (mName led) mDutyPcts, duty),
        (LedStream (mName led) mPauseLo, to_string (sint offMs)),
        (LedStream (mName led) mPauseHi,
           to_string (if 800 \<le> sint onMs then sint onMs - 800 else 0)),
        (LedStream (mName led) mRampStepMs,
           to_string (if 800 \<le> sint onMs then 50 else sint onMs sdiv 16))]"
    by (simp add: setBlink_eq duty)
  have index: "- 268435456 \<le> sint (mIndex led) \<and> sint (mIndex led) < 268435456 \<longrightarrow>
      sint (mIndex led * 8) = sint (mIndex led) * 8"
    by (simp add: sint_times_8)
  have short: "\<exists>duty. setBlink led brightness 400 offMs = Some
       [(LedStream (mName led) mStartIdx, to_string (sint (mIndex led * 8))),
        (LedStream (mName led) mDutyPcts, duty),
        (LedStream (mName led) mPauseLo, to_string (sint offMs)),
        (LedStream (mName led) mPauseHi, ''0''),
        (LedStream (mName led) mRampStepMs, ''25'')]"
    by (simp add: setBlink_eq duty to_string_small)
  have long: "\<exists>duty. setBlink led brightness 1000 offMs = Some
       [(LedStream (mName led) mStartIdx, to_string (sint (mIndex led * 8))),
        (LedStream (mName led) mDutyPcts, duty),
        (LedStream (mName led) mPauseLo, to_string (sint offMs)),
        (LedStream (mName led) mPauseHi, ''200''),
        (LedStream (mName led) mRampStepMs, ''50'')]"
    by (simp add: setBlink_eq duty to_string_small)
  from general index short long show ?thesis
    by blast
qed

theorem setBlink_ramp_timing_witness:
  "setBlink green_led 255 400 1000 = Some
     [(LedStream ''green'' mStartIdx, ''8''),
      (LedStream ''green'' mDutyPcts, ''0,12,25,37,50,72,85,100''),
      (LedStream ''green'' mPauseLo, ''1000''),
      (LedStream ''green'' mPauseHi, ''0''),
      (LedStream ''green'' mRampStepMs, ''25'')] \<and>
   - 268435456 \<le> sint (mIndex green_led) \<and> sint (mIndex green_led) < 268435456 \<and>
   sint (mIndex green_led * 8) = 8"
  using setBlink_ramp_timing [of green_led 255 400 1000]
  by (simp add: green_led_def setBlink_eq getScaledDutyPcts_255 to_string_small)

text \<open>
  Claim C5, as stated: the eight duty values are the quotients \<open>curve[i] * brightness / 255\<close>
  rounded to the nearest integer. At brightness 100 the second value would be 5
  (\<open>1200 / 255 = 4.7\<close>); the code writes 4.
\<close>

theorem getScaledDutyPcts_rounded_counterexample:
  "getScaledDutyPcts 100 \<noteq> Some (rounded_duty_pcts 100)"
  by (simp add: getScaledDutyPcts_100 rounded_duty_pcts_100)

text \<open>
  Claim C5, amended: for every brightness from 0 to 255 the duty-cycle string written by
  \<^verbatim>\<open>setBlink\<close> is the eight values \<open>curve[i] * brightness / 255\<close>, truncated (not
  rounded), over the curve 0, 12, 25, 37, 50, 72, 85, 100, joined by commas in order; for
  brightness 255 it is exactly \<^verbatim>\<open>0,12,25,37,50,72,85,100\<close> and for brightness 0 it is all
  zeros.
\<close>

theorem getScaledDutyPcts_truncated:
  assumes "0 \<le> sint brightness" and "sint brightness \<le> 255"
  shows "getScaledDutyPcts brightness = Some (truncated_duty_pcts (sint brightness)) \<and>
         (\<exists>ws. setBlink led brightness onMs offMs = Some ws \<and>
            ws ! 1 = (LedStream (mName led) mDutyPcts, truncated_duty_pcts (sint brightness))) \<and>
         getScaledDutyPcts 255 = Some ''0,12,25,37,50,72,85,100'' \<and>
         getScaledDutyPcts 0 = Some ''0,0,0,0,0,0,0,0''"
  using assms
  by (simp add: getScaledDutyPcts_in_range setBlink_eq getScaledDutyPcts_255
      getScaledDutyPcts_0)

theorem getScaledDutyPcts_truncated_witness:
  "0 \<le> sint (100 :: int32_t) \<and> sint (100 :: int32_t) \<le> 255 \<and>
   getScaledDutyPcts 100 = Some ''0,4,9,14,19,28,33,39'' \<and>
   (\<exists>ws. setBlink green_led 100 400 1000 = Some ws \<and>
      ws ! 1 = (LedStream ''green'' mDutyPcts, ''0,4,9,14,19,28,33,39''))"
  using getScaledDutyPcts_truncated [of 100 green_led 400 1000]
  by (simp add: truncated_duty_pcts_100 green_led_def)

subsection \<open>Bytes of a colour\<close>

lemma and_ff: "(w :: 32 word) AND 0xff = take_bit 8 w"
proof -
  have "(0xff :: 32 word) = mask 8" by (simp add: mask_eq_exp_minus_1)
  then show ?thesis by (simp add: take_bit_eq_mask)
qed

lemma and_ffffff: "(w :: 32 word) AND 0x00ffffff = take_bit 24 w"
proof -
  have "(0x00ffffff :: 32 word) = mask 24" by (simp add: mask_eq_exp_minus_1)
  then show ?thesis by (simp add: take_bit_eq_mask)
qed

lemma unat_byte0: "unat ((w :: 32 word) AND 0xff) = byte_of w 0"
  by (simp add: and_ff byte_of_def take_bit_eq_mod unat_mod)

lemma unat_byte1: "unat (drop_bit 8 (w :: 32 word) AND 0xff) = byte_of w 1"
  by (simp add: and_ff byte_of_def take_bit_eq_mod drop_bit_eq_div unat_mod unat_div)

lemma unat_byte2: "unat (drop_bit 16 (w :: 32 word) AND 0xff) = byte_of w 2"
  by (simp add: and_ff byte_of_def take_bit_eq_mod drop_bit_eq_div unat_mod unat_div)

lemma unat_byte3: "unat (drop_bit 24 (w :: 32 word) AND 0xff) = byte_of w 3"
  by (simp add: and_ff byte_of_def take_bit_eq_mod drop_bit_eq_div unat_mod unat_div)

lemma byte_of_lt: "byte_of w k < 256"
  by (simp add: byte_of_def)

lemma low24_byte1: "drop_bit 8 (take_bit 24 (w :: 32 word)) AND 0xff = drop_bit 8 w AND 0xff"
  by (simp add: and_ff drop_bit_take_bit)

lemma low24_byte2: "drop_bit 16 (take_bit 24 (w :: 32 word)) AND 0xff = drop_bit 16 w AND 0xff"
  by (simp add: and_ff drop_bit_take_bit)

lemma low24_byte0: "take_bit 24 (w :: 32 word) AND 0xff = w AND 0xff"
  by (simp add: and_ff)

lemma unat_scaled:
  fixes c a :: "32 word"
  assumes "unat c < 256" "unat a < 256"
  shows "unat (c * a div 0xff) = unat c * unat a div 255"
proof -
  have "unat c * unat a \<le> 255 * 255"
    using assms by (intro mult_le_mono) auto
  then have "unat (c * a) = unat c * unat a"
    by (simp add: unat_mult_lem [THEN iffD1])
  then show ?thesis by (simp add: unat_div)
qed

lemma alpha_ne: "(drop_bit 24 (w :: 32 word) AND 0xff \<noteq> 0xff) = (byte_of w 3 \<noteq> 255)"
proof -
  have "(drop_bit 24 w AND 0xff = 0xff) = (unat (drop_bit 24 w AND 0xff) = unat (0xff :: 32 word))"
    by (simp only: word_unat_eq_iff)
  then show ?thesis by (simp add: unat_byte3)
qed

lemma scale_eq:
  "\<exists>red green blue. setSpeakerLightLocked_scale state = Some (red, green, blue) \<and>
     unat red = dimmed (byte_of (color state) 3) (byte_of (color state) 2) \<and>
     unat green = dimmed (byte_of (color state) 3) (byte_of (color state) 1) \<and>
     unat blue = dimmed (byte_of (color state) 3) (byte_of (color state) 0)"
proof -
  define a r g b where "a = drop_bit 24 (color state) AND 0xff"
    and "r = drop_bit 16 (color state) AND 0xff"
    and "g = drop_bit 8 (color state) AND 0xff"
    and "b = color state AND 0xff"
  have ua: "unat a = byte_of (color state) 3" and ur: "unat r = byte_of (color state) 2"
    and ug: "unat g = byte_of (color state) 1" and ub: "unat b = byte_of (color state) 0"
    unfolding a_def r_def g_def b_def by (rule unat_byte3 unat_byte2 unat_byte1 unat_byte0)+
  have lt: "unat a < 256" "unat r < 256" "unat g < 256" "unat b < 256"
    unfolding ua ur ug ub by (rule byte_of_lt)+
  have an: "a \<noteq> 0xff \<longleftrightarrow> byte_of (color state) 3 \<noteq> 255"
    unfolding a_def by (rule alpha_ne)
  have eq: "setSpeakerLightLocked_scale state =
      (if a \<noteq> 0xff then Some (r * a div 0xff, g * a div 0xff, b * a div 0xff)
       else Some (r, g, b))"
    by (simp add: setSpeakerLightLocked_scale_def udiv32_def a_def r_def g_def b_def Let_def)
  have sc: "unat (r * a div 0xff) = unat r * unat a div 255"
    "unat (g * a div 0xff) = unat g * unat a div 255"
    "unat (b * a div 0xff) = unat b * unat a div 255"
    using lt by (simp_all only: unat_scaled)
  show ?thesis
  proof (cases "byte_of (color state) 3 = 255")
    case True
    then show ?thesis
      by (simp add: eq an dimmed_def ur ug ub)
  next
    case False
    then show ?thesis
      by (simp add: eq an dimmed_def sc ua ur ug ub)
  qed
qed

lemma unat_rgbToBrightness: "unat (rgbToBrightness state) = luma (color state)"
proof -
  define r g b where "r = drop_bit 16 (color state) AND 0xff"
    and "g = drop_bit 8 (color state) AND 0xff"
    and "b = color state AND 0xff"
  have ur: "unat r = byte_of (color state) 2"
    and ug: "unat g = byte_of (color state) 1" and ub: "unat b = byte_of (color state) 0"
    unfolding r_def g_def b_def by (rule unat_byte2 unat_byte1 unat_byte0)+
  have lt: "unat r < 256" "unat g < 256" "unat b < 256"
    unfolding ur ug ub by (rule byte_of_lt)+
  have s: "unat (77 * r + 150 * g + 29 * b) = 77 * unat r + 150 * unat g + 29 * unat b"
    using lt by (simp add: unat_word_ariths)
  have "rgbToBrightness state = drop_bit 8 (77 * r + 150 * g + 29 * b)"
    unfolding r_def g_def b_def
    by (simp only: rgbToBrightness_def Let_def and_ffffff low24_byte0 low24_byte1 low24_byte2)
  then have "unat (rgbToBrightness state) = unat (77 * r + 150 * g + 29 * b) div 256"
    by (simp add: unat_drop_bit_eq drop_bit_eq_div unat_div)
  then show ?thesis
    by (simp only: s ur ug ub luma_def)
qed

lemma luma_le: "luma c \<le> 255"
proof -
  have "byte_of c 2 \<le> 255" "byte_of c 1 \<le> 255" "byte_of c 0 \<le> 255"
    using byte_of_lt [of c 2] byte_of_lt [of c 1] byte_of_lt [of c 0] by simp_all
  then show ?thesis by (simp add: luma_def)
qed

subsection \<open>Backlight, arbitration and dispatch\<close>

lemma second_ne: "(w \<noteq> MAX_BRIGHTNESS) = (unat w \<noteq> 255)"
proof -
  have "(w = 255) = (unat w = unat (255 :: 32 word))"
    by (simp only: word_unat_eq_iff)
  then show ?thesis by (simp add: MAX_BRIGHTNESS_def)
qed

lemma uint_rgbToBrightness: "uint (rgbToBrightness state) = int (luma (color state))"
  by (simp add: unat_rgbToBrightness [symmetric])

lemma setLcdBacklight_eq:
  "setLcdBacklight l state =
     Some (l, [(LcdBacklightStream,
        to_string (int (backlight_written (unat (mLcdBacklight_second l)) (color state))))])"
proof (cases "mLcdBacklight_second l = 255")
  case True
  then have "unat (mLcdBacklight_second l) = 255"
    by simp
  with True show ?thesis
    by (simp add: setLcdBacklight_def MAX_BRIGHTNESS_def Let_def backlight_written_def
        uint_rgbToBrightness)
next
  case False
  then have ne: "unat (mLcdBacklight_second l) \<noteq> 255"
    using second_ne [of "mLcdBacklight_second l"] by (simp add: MAX_BRIGHTNESS_def)
  have "unat (rgbToBrightness state * mLcdBacklight_second l div 255) =
        (luma (color state) * unat (mLcdBacklight_second l) mod 2 ^ 32) div 255"
    by (simp add: unat_div unat_word_ariths(2) unat_rgbToBrightness)
  then have "uint (rgbToBrightness state * mLcdBacklight_second l div 255) =
        int ((luma (color state) * unat (mLcdBacklight_second l) mod 2 ^ 32) div 255)"
    by (simp only: uint_nat)
  with False ne show ?thesis
    by (simp add: setLcdBacklight_def MAX_BRIGHTNESS_def Let_def udiv32_def
        backlight_written_def)
qed

lemma backlight_no_wrap:
  assumes "m \<le> 16843009"
  shows "backlight_written m c = backlight_claimed m c"
proof -
  have "luma c * m \<le> 255 * 16843009"
    using assms luma_le [of c] by (intro mult_le_mono) auto
  then have "luma c * m < 2 ^ 32" by simp
  then show ?thesis
    by (simp add: backlight_written_def backlight_claimed_def)
qed

lemma luma_white: "luma 0x00FFFFFF = 255"
  by (simp add: luma_def byte_of_def)

lemma luma_black: "luma 0 = 0"
  by (simp add: luma_def byte_of_def)

lemma isLit_mod: "isLit state \<longleftrightarrow> unat (color state) mod 16777216 \<noteq> 0"
proof -
  have "(take_bit 24 (color state) = 0) = (unat (take_bit 24 (color state)) = 0)"
    by (simp add: unat_eq_0)
  then show ?thesis
    by (simp add: isLit_def and_ffffff take_bit_eq_mod unat_mod)
qed

lemma to_string_0: "to_string 0 = ''0''" and to_string_1: "to_string 1 = ''1''"
  by (simp_all add: to_string_def digits10.simps digit_char_def)

lemma off_eq: "off led = [(LedStream (mName led) mBlink, ''0''), (LedStream (mName led) mBrightness, ''0'')]"
  by (simp add: off_def setBrightness_def to_string_0)

lemma setBlink_total: "\<exists>ws. setBlink led b onMs offMs = Some ws"
  using getScaledDutyPcts_total [of b] by (auto simp: setBlink_eq)

lemma setBlink_streams:
  assumes "setBlink led b onMs offMs = Some ws"
  shows "\<forall>w \<in> set ws. \<exists>a. fst w = LedStream (mName led) a"
  using assms by (auto simp: setBlink_eq)

lemma scale_total: "\<exists>r g b. setSpeakerLightLocked_scale state = Some (r, g, b)"
  using scale_eq [of state] by blast

lemma drive_total: "\<exists>ws. setSpeakerLightLocked_drive l state r g b = Some ws"
proof (cases "flashMode state")
  case TIMED
  obtain rw gw bw where
    "setBlink (mRedLed l) r (flashOnMs state) (flashOffMs state) = Some rw"
    "setBlink (mGreenLed l) g (flashOnMs state) (flashOffMs state) = Some gw"
    "setBlink (mBlueLed l) b (flashOnMs state) (flashOffMs state) = Some bw"
    using setBlink_total by metis
  with TIMED show ?thesis
    by (simp add: setSpeakerLightLocked_drive_def)
qed (simp_all add: setSpeakerLightLocked_drive_def)

lemma setSpeakerLightLocked_total: "\<exists>ws. setSpeakerLightLocked l state = Some ws"
proof -
  obtain r g b where "setSpeakerLightLocked_scale state = Some (r, g, b)"
    using scale_total by blast
  then show ?thesis
    using drive_total [of l state r g b] by (simp add: setSpeakerLightLocked_def)
qed

lemma setSpeakerBatteryLightLocked_total: "\<exists>ws. setSpeakerBatteryLightLocked l = Some ws"
  by (simp add: setSpeakerBatteryLightLocked_def setSpeakerLightLocked_total)

lemma handlers_total:
  "\<exists>ws. setAttentionLight l state = Some (l\<lparr>mAttentionState := state\<rparr>, ws)"
  "\<exists>ws. setBatteryLight l state = Some (l\<lparr>mBatteryState := state\<rparr>, ws)"
  "\<exists>ws. setNotificationLight l state = Some (l\<lparr>mNotificationState := state\<rparr>, ws)"
proof -
  show "\<exists>ws. setAttentionLight l state = Some (l\<lparr>mAttentionState := state\<rparr>, ws)"
    using setSpeakerBatteryLightLocked_total [of "l\<lparr>mAttentionState := state\<rparr>"]
    by (auto simp: setAttentionLight_def)
  show "\<exists>ws. setBatteryLight l state = Some (l\<lparr>mBatteryState := state\<rparr>, ws)"
    using setSpeakerBatteryLightLocked_total [of "l\<lparr>mBatteryState := state\<rparr>"]
    by (auto simp: setBatteryLight_def)
  show "\<exists>ws. setNotificationLight l state = Some (l\<lparr>mNotificationState := state\<rparr>, ws)"
    using setSpeakerBatteryLightLocked_total [of "l\<lparr>mNotificationState := state\<rparr>"]
    by (auto simp: setNotificationLight_def)
qed

lemma mLights_None:
  "type \<notin> {ATTENTION, BACKLIGHT, BATTERY, NOTIFICATIONS} \<Longrightarrow> mLights type = None"
  by (cases type) (simp_all add: mLights_def)

lemma mLights_Some:
  "mLights ATTENTION = Some attnFn" "mLights BACKLIGHT = Some backlightFn"
  "mLights BATTERY = Some batteryFn" "mLights NOTIFICATIONS = Some notifFn"
  by (simp_all add: mLights_def)

lemma setLight_unsupported:
  "type \<notin> {ATTENTION, BACKLIGHT, BATTERY, NOTIFICATIONS} \<Longrightarrow>
     setLight l type state = Some (LIGHT_NOT_SUPPORTED, l, [])"
  by (simp add: setLight_def mLights_None)

lemma setLight_supported:
  assumes "type \<in> {ATTENTION, BACKLIGHT, BATTERY, NOTIFICATIONS}"
  shows "\<exists>l' ws. setLight l type state = Some (SUCCESS, l', ws)"
proof -
  from assms consider "type = ATTENTION" | "type = BACKLIGHT" | "type = BATTERY"
    | "type = NOTIFICATIONS" by auto
  then show ?thesis
  proof cases
    case 1
    then show ?thesis
      using handlers_total(1) [of l state] by (auto simp: setLight_def mLights_Some)
  next
    case 2
    then show ?thesis
      by (simp add: setLight_def mLights_Some setLcdBacklight_eq)
  next
    case 3
    then show ?thesis
      using handlers_total(2) [of l state] by (auto simp: setLight_def mLights_Some)
  next
    case 4
    then show ?thesis
      using handlers_total(3) [of l state] by (auto simp: setLight_def mLights_Some)
  qed
qed

lemma setLight_total: "\<exists>r. setLight l type state = Some r"
proof (cases "type \<in> {ATTENTION, BACKLIGHT, BATTERY, NOTIFICATIONS}")
  case True
  then show ?thesis using setLight_supported [of type l state] by blast
next
  case False
  then show ?thesis by (simp add: setLight_unsupported)
qed

lemma scale_unfold:
  "setSpeakerLightLocked_scale state =
     (if drop_bit 24 (color state) AND 0xff \<noteq> 0xff
      then Some
        ((drop_bit 16 (color state) AND 0xff) * (drop_bit 24 (color state) AND 0xff) div 0xff,
         (drop_bit 8 (color state) AND 0xff) * (drop_bit 24 (color state) AND 0xff) div 0xff,
         (color state AND 0xff) * (drop_bit 24 (color state) AND 0xff) div 0xff)
      else Some (drop_bit 16 (color state) AND 0xff, drop_bit 8 (color state) AND 0xff,
         color state AND 0xff))"
  by (simp add: setSpeakerLightLocked_scale_def udiv32_def Let_def)

lemma setBrightness_streams: "\<forall>w \<in> set (setBrightness led v). fst w \<noteq> RgbBlinkStream"
  by (simp add: setBrightness_def)

lemma setBlink_not_start:
  assumes "setBlink led b onMs offMs = Some ws"
  shows "\<forall>w \<in> set ws. fst w \<noteq> RgbBlinkStream"
  using setBlink_streams [OF assms] by auto

subsection \<open>The claims on arbitration, scaling and dispatch\<close>

text \<open>
  Claim C1. For every triple of stored role states, a state is lit iff the lower 24 bits
  of its colour are nonzero, and re-evaluating the shared LED applies the notification state
  if it is lit, else the attention state if it is lit, else the battery state if it is
  lit, and otherwise turns the three channels off: blink disabled and brightness 0 on each.
\<close>

theorem setSpeakerBatteryLightLocked_priority:
  "(isLit state \<longleftrightarrow> unat (color state) mod 16777216 \<noteq> 0) \<and>
   setSpeakerBatteryLightLocked l =
     (if isLit (mNotificationState l) then setSpeakerLightLocked l (mNotificationState l)
      else if isLit (mAttentionState l) then setSpeakerLightLocked l (mAttentionState l)
      else if isLit (mBatteryState l) then setSpeakerLightLocked l (mBatteryState l)
      else Some
        [(LedStream (mName (mRedLed l)) mBlink, ''0''),
         (LedStream (mName (mRedLed l)) mBrightness, ''0''),
         (LedStream (mName (mGreenLed l)) mBlink, ''0''),
         (LedStream (mName (mGreenLed l)) mBrightness, ''0''),
         (LedStream (mName (mBlueLed l)) mBlink, ''0''),
         (LedStream (mName (mBlueLed l)) mBrightness, ''0'')])"
  using isLit_mod [of state]
  by (simp only: simp_thms setSpeakerBatteryLightLocked_def off_eq append.simps)

text \<open>
  Claim C3. For every 32-bit colour applied to the shared LED, alpha is byte 3 and red,
  green and blue are bytes 2, 1 and 0; unless alpha is 255 each channel value is
  \<open>channel * alpha / 255\<close>, truncated, and with alpha 255 the channel values are used as
  they are. Colour \<^verbatim>\<open>0x80FF0000\<close> gives red 128, green 0, blue 0, and \<^verbatim>\<open>0xFFFF0000\<close>
  gives red 255.
\<close>

theorem setSpeakerLightLocked_alpha_scaling:
  "(\<exists>red green blue.
      setSpeakerLightLocked_scale state = Some (red, green, blue) \<and>
      unat red = dimmed (byte_of (color state) 3) (byte_of (color state) 2) \<and>
      unat green = dimmed (byte_of (color state) 3) (byte_of (color state) 1) \<and>
      unat blue = dimmed (byte_of (color state) 3) (byte_of (color state) 0) \<and>
      setSpeakerLightLocked l state = setSpeakerLightLocked_drive l state red green blue) \<and>
   setSpeakerLightLocked_scale (state\<lparr>color := 0x80FF0000\<rparr>) = Some (128, 0, 0) \<and>
   setSpeakerLightLocked_scale (state\<lparr>color := 0xFFFF0000\<rparr>) = Some (255, 0, 0)"
proof -
  obtain red green blue where rgb:
    "setSpeakerLightLocked_scale state = Some (red, green, blue)"
    "unat red = dimmed (byte_of (color state) 3) (byte_of (color state) 2)"
    "unat green = dimmed (byte_of (color state) 3) (byte_of (color state) 1)"
    "unat blue = dimmed (byte_of (color state) 3) (byte_of (color state) 0)"
    using scale_eq [of state] by blast
  have "setSpeakerLightLocked l state = setSpeakerLightLocked_drive l state red green blue"
    by (simp add: setSpeakerLightLocked_def rgb(1))
  with rgb have general: "\<exists>red green blue.
      setSpeakerLightLocked_scale state = Some (red, green, blue) \<and>
      unat red = dimmed (byte_of (color state) 3) (byte_of (color state) 2) \<and>
      unat green = dimmed (byte_of (color state) 3) (byte_of (color state) 1) \<and>
      unat blue = dimmed (byte_of (color state) 3) (byte_of (color state) 0) \<and>
      setSpeakerLightLocked l state = setSpeakerLightLocked_drive l state red green blue"
    by blast
  have half: "setSpeakerLightLocked_scale (state\<lparr>color := 0x80FF0000\<rparr>) = Some (128, 0, 0)"
    by (simp add: scale_unfold)
  have full: "setSpeakerLightLocked_scale (state\<lparr>color := 0xFFFF0000\<rparr>) = Some (255, 0, 0)"
    by (simp add: scale_unfold)
  from general half full show ?thesis
    by blast
qed

text \<open>
  The backlight path on the range where the 32-bit product cannot wrap: for every colour
  and every maximum brightness up to 16843009 the written value is the luma,
  \<open>(77R + 150G + 29B)\<close> shifted right by 8, rescaled to \<open>luma * maxBrightness / 255\<close>
  (truncated) when the maximum differs from 255 and written as it is when the maximum is
  255.
\<close>

lemma setLcdBacklight_linear_in_range:
  assumes "unat (mLcdBacklight_second l) \<le> 16843009"
  shows "setLcdBacklight l state =
     Some (l, [(LcdBacklightStream,
       to_string (int (backlight_claimed (unat (mLcdBacklight_second l)) (color state))))])"
  using assms by (simp add: setLcdBacklight_eq backlight_no_wrap)

lemma rgbToBrightness_samples:
  "rgbToBrightness (state\<lparr>color := 0x00FFFFFF\<rparr>) = 255"
  "rgbToBrightness (state\<lparr>color := 0x00000000\<rparr>) = 0"
  by (simp_all add: rgbToBrightness_def)

lemma setLcdBacklight_half_panel:
  "setLcdBacklight (l\<lparr>mLcdBacklight_second := 128\<rparr>) (state\<lparr>color := 0x00FFFFFF\<rparr>) =
     Some (l\<lparr>mLcdBacklight_second := 128\<rparr>, [(LcdBacklightStream, ''128'')])"
  by (simp add: setLcdBacklight_eq backlight_written_def luma_white to_string_small)

text \<open>
  Claim C4. For every colour passed to the backlight path the written brightness is
  \<open>(77R + 150G + 29B)\<close> shifted right by 8, rescaled to \<open>brightness * maxBrightness / 255\<close>
  (truncated) when the device maximum differs from 255. The code breaks this linear
  scaling, which its own comment announces, where the product
  \<open>brightness * maxBrightness\<close> leaves 32 bits: with a maximum of \<open>2 ^ 31\<close> and the colour
  \<^verbatim>\<open>0x00FFFFFF\<close> the brightness is 255 and the claimed value is 2147483648, while
  \<^verbatim>\<open>setLcdBacklight\<close> writes 8421504.
\<close>

theorem setLcdBacklight_overflow:
  "rgbToBrightness white_state = 255 \<and>
   mLcdBacklight_second wide_panel_light = 2147483648 \<and>
   backlight_claimed (unat (mLcdBacklight_second wide_panel_light)) (color white_state) =
     2147483648 \<and>
   setLcdBacklight wide_panel_light white_state =
     Some (wide_panel_light, [(LcdBacklightStream, ''8421504'')])"
proof -
  have luma: "rgbToBrightness white_state = 255"
    by (simp add: rgbToBrightness_def white_state_def dark_state_def)
  have panel: "mLcdBacklight_second wide_panel_light = 2147483648"
    by (simp add: wide_panel_light_def sample_light_def)
  have claimed: "backlight_claimed (unat (mLcdBacklight_second wide_panel_light))
      (color white_state) = 2147483648"
    by (simp add: panel backlight_claimed_def white_state_def dark_state_def luma_white)
  have "backlight_written 2147483648 0x00FFFFFF = 8421504"
    by (simp add: backlight_written_def luma_white)
  moreover have "to_string 8421504 = ''8421504''"
    by (simp add: to_string_def digits10.simps digit_char_def)
  ultimately have written: "setLcdBacklight wide_panel_light white_state =
      Some (wide_panel_light, [(LcdBacklightStream, ''8421504'')])"
    by (simp add: setLcdBacklight_eq panel white_state_def dark_state_def)
  from luma panel claimed written show ?thesis
    by blast
qed

text \<open>
  Claim C6. For every role outside ATTENTION, BACKLIGHT, BATTERY and NOTIFICATIONS and
  every state, \<^verbatim>\<open>setLight\<close> returns \<^verbatim>\<open>LIGHT_NOT_SUPPORTED\<close>, writes nothing and leaves
  the object as it was; for every role of the four it returns \<^verbatim>\<open>SUCCESS\<close>.
\<close>

theorem setLight_role_support:
  "(type \<notin> {ATTENTION, BACKLIGHT, BATTERY, NOTIFICATIONS} \<longrightarrow>
      setLight l type state = Some (LIGHT_NOT_SUPPORTED, l, [])) \<and>
   (type \<in> {ATTENTION, BACKLIGHT, BATTERY, NOTIFICATIONS} \<longrightarrow>
      (\<exists>l' ws. setLight l type state = Some (SUCCESS, l', ws)))"
  using setLight_unsupported [of type l state] setLight_supported [of type l state]
  by blast

theorem setLight_role_support_witness:
  "KEYBOARD \<notin> {ATTENTION, BACKLIGHT, BATTERY, NOTIFICATIONS} \<and>
   setLight sample_light KEYBOARD white_state = Some (LIGHT_NOT_SUPPORTED, sample_light, []) \<and>
   BATTERY \<in> {ATTENTION, BACKLIGHT, BATTERY, NOTIFICATIONS} \<and>
   (\<exists>l' ws. setLight sample_light BATTERY white_state = Some (SUCCESS, l', ws))"
  using setLight_role_support [of KEYBOARD sample_light white_state]
    setLight_role_support [of BATTERY sample_light white_state]
  by simp

text \<open>
  Claim C8. For every state, \<^verbatim>\<open>setLight\<close> with role BACKLIGHT writes one line, to the
  backlight stream, and returns the object unchanged: the three stored role states are as
  before, no stream of a channel and not the blink-start stream is written, and nothing
  is stored for BACKLIGHT.
\<close>

theorem setLight_backlight_frame:
  "\<exists>txt. setLight l BACKLIGHT state = Some (SUCCESS, l, [(LcdBacklightStream, txt)])"
  by (simp add: setLight_def mLights_Some setLcdBacklight_eq)

text \<open>
  Claim C7. Whenever a state is applied to the shared LED, the first write is 0 to the
  blink-start stream. With flash mode TIMED the writes of \<^verbatim>\<open>setBlink\<close> on the red, green
  and blue channel follow in this order and the last write is 1 to the blink-start stream;
  with any other flash mode the writes of \<^verbatim>\<open>setBrightness\<close> on the three channels follow
  and nothing more is written to the blink-start stream.
\<close>

theorem setSpeakerLightLocked_blink_start_order:
  "\<exists>red green blue.
     setSpeakerLightLocked_scale state = Some (red, green, blue) \<and>
     (flashMode state = TIMED \<longrightarrow>
        (\<exists>rw gw bw.
           setBlink (mRedLed l) red (flashOnMs state) (flashOffMs state) = Some rw \<and>
           setBlink (mGreenLed l) green (flashOnMs state) (flashOffMs state) = Some gw \<and>
           setBlink (mBlueLed l) blue (flashOnMs state) (flashOffMs state) = Some bw \<and>
           setSpeakerLightLocked l state =
             Some ((RgbBlinkStream, ''0'') # rw @ gw @ bw @ [(RgbBlinkStream, ''1'')]) \<and>
           (\<forall>w \<in> set (rw @ gw @ bw). fst w \<noteq> RgbBlinkStream))) \<and>
     (flashMode state \<noteq> TIMED \<longrightarrow>
        setSpeakerLightLocked l state =
          Some ((RgbBlinkStream, ''0'') # setBrightness (mRedLed l) red
                @ setBrightness (mGreenLed l) green @ setBrightness (mBlueLed l) blue) \<and>
        (\<forall>w \<in> set (setBrightness (mRedLed l) red @ setBrightness (mGreenLed l) green
                      @ setBrightness (mBlueLed l) blue). fst w \<noteq> RgbBlinkStream))"
proof -
  obtain red green blue where rgb: "setSpeakerLightLocked_scale state = Some (red, green, blue)"
    using scale_total by blast
  obtain rw gw bw where blink:
    "setBlink (mRedLed l) red (flashOnMs state) (flashOffMs state) = Some rw"
    "setBlink (mGreenLed l) green (flashOnMs state) (flashOffMs state) = Some gw"
    "setBlink (mBlueLed l) blue (flashOnMs state) (flashOffMs state) = Some bw"
    using setBlink_total by metis
  have quiet: "\<forall>w \<in> set (rw @ gw @ bw). fst w \<noteq> RgbBlinkStream"
    using setBlink_not_start [OF blink(1)] setBlink_not_start [OF blink(2)]
      setBlink_not_start [OF blink(3)] by auto
  have timed: "flashMode state = TIMED \<longrightarrow>
      setSpeakerLightLocked l state =
        Some ((RgbBlinkStream, ''0'') # rw @ gw @ bw @ [(RgbBlinkStream, ''1'')])"
    by (simp add: setSpeakerLightLocked_def rgb setSpeakerLightLocked_drive_def blink
        to_string_0 to_string_1)
  have steady: "flashMode state \<noteq> TIMED \<longrightarrow>
      setSpeakerLightLocked l state =
        Some ((RgbBlinkStream, ''0'') # setBrightness (mRedLed l) red
              @ setBrightness (mGreenLed l) green @ setBrightness (mBlueLed l) blue)"
    by (cases "flashMode state")
       (simp_all add: setSpeakerLightLocked_def rgb setSpeakerLightLocked_drive_def to_string_0)
  have still: "\<forall>w \<in> set (setBrightness (mRedLed l) red @ setBrightness (mGreenLed l) green
                      @ setBrightness (mBlueLed l) blue). fst w \<noteq> RgbBlinkStream"
    using setBrightness_streams by auto
  from rgb blink quiet timed steady still show ?thesis
    by blast
qed

theorem setSpeakerLightLocked_blink_start_order_witness:
  "flashMode blinking_state = TIMED \<and>
   setSpeakerLightLocked sample_light blinking_state = Some
     [(RgbBlinkStream, ''0''),
      (LedStream ''red'' mStartIdx, ''0''),
      (LedStream ''red'' mDutyPcts, ''0,12,25,37,50,72,85,100''),
      (LedStream ''red'' mPauseLo, ''400''),
      (LedStream ''red'' mPauseHi, ''200''),
      (LedStream ''red'' mRampStepMs, ''50''),
      (LedStream ''green'' mStartIdx, ''8''),
      (LedStream ''green'' mDutyPcts, ''0,0,0,0,0,0,0,0''),
      (LedStream ''green'' mPauseLo, ''400''),
      (LedStream ''green'' mPauseHi, ''200''),
      (LedStream ''green'' mRampStepMs, ''50''),
      (LedStream ''blue'' mStartIdx, ''16''),
      (LedStream ''blue'' mDutyPcts, ''0,0,0,0,0,0,0,0''),
      (LedStream ''blue'' mPauseLo, ''400''),
      (LedStream ''blue'' mPauseHi, ''200''),
      (LedStream ''blue'' mRampStepMs, ''50''),
      (RgbBlinkStream, ''1'')] \<and>
   flashMode red_state \<noteq> TIMED \<and>
   setSpeakerLightLocked sample_light red_state = Some
     [(RgbBlinkStream, ''0''),
      (LedStream ''red'' mBlink, ''0''), (LedStream ''red'' mBrightness, ''255''),
      (LedStream ''green'' mBlink, ''0''), (LedStream ''green'' mBrightness, ''0''),
      (LedStream ''blue'' mBlink, ''0''), (LedStream ''blue'' mBrightness, ''0'')]"
  using setSpeakerLightLocked_blink_start_order [of blinking_state sample_light]
    setSpeakerLightLocked_blink_start_order [of red_state sample_light]
  by (simp add: blinking_state_def red_state_def dark_state_def sample_light_def
      setSpeakerLightLocked_def scale_unfold setSpeakerLightLocked_drive_def setBlink_eq
      getScaledDutyPcts_0 getScaledDutyPcts_255 setBrightness_def to_string_def
      digits10.simps digit_char_def)

text \<open>
  Claim C9. \<^verbatim>\<open>setBlink\<close> with an on-time of 0 meets no division by zero: 0 is below
  the 800 of the branch test, and the call returns, having written step duration 0 and
  pause-high 0. Every division of the brightness
  scaling and of the ramp arithmetic has a nonzero divisor (16, 255, \<^verbatim>\<open>0xff\<close> and
  \<^verbatim>\<open>MAX_BRIGHTNESS\<close>), so every function of the model returns for all inputs.
\<close>

theorem no_division_by_zero:
  "(\<exists>duty. setBlink led brightness 0 offMs = Some
       [(LedStream (mName led) mStartIdx, to_string (sint (mIndex led * 8))),
        (LedStream (mName led) mDutyPcts, duty),
        (LedStream (mName led) mPauseLo, to_string (sint offMs)),
        (LedStream (mName led) mPauseHi, ''0''),
        (LedStream (mName led) mRampStepMs, ''0'')]) \<and>
   0 <s RAMP_STEP_DURATION * RAMP_SIZE * 2 \<and>
   RAMP_SIZE * 2 \<noteq> 0 \<and> MAX_BRIGHTNESS \<noteq> 0 \<and>
   (\<exists>q. sdiv32 onMs (RAMP_SIZE * 2) = Some q) \<and>
   (\<exists>q. sdiv32 (i * brightness) 255 = Some q) \<and>
   (\<exists>q. udiv32 (c * alpha) 0xff = Some q) \<and>
   (\<exists>q. udiv32 (b * mLcdBacklight_second l) MAX_BRIGHTNESS = Some q) \<and>
   (\<exists>s. getScaledDutyPcts brightness = Some s) \<and>
   (\<exists>ws. setBlink led brightness onMs offMs = Some ws) \<and>
   (\<exists>rgb. setSpeakerLightLocked_scale state = Some rgb) \<and>
   (\<exists>ws. setSpeakerLightLocked l state = Some ws) \<and>
   (\<exists>ws. setSpeakerBatteryLightLocked l = Some ws) \<and>
   (\<exists>r. setLcdBacklight l state = Some r) \<and>
   (\<exists>r. setLight l type state = Some r)"
proof -
  obtain duty where duty: "getScaledDutyPcts brightness = Some duty"
    using getScaledDutyPcts_total by blast
  have zero: "\<exists>duty. setBlink led brightness 0 offMs = Some
       [(LedStream (mName led) mStartIdx, to_string (sint (mIndex led * 8))),
        (LedStream (mName led) mDutyPcts, duty),
        (LedStream (mName led) mPauseLo, to_string (sint offMs)),
        (LedStream (mName led) mPauseHi, ''0''),
        (LedStream (mName led) mRampStepMs, ''0'')]"
    by (simp add: setBlink_eq duty to_string_0)
  have divisors: "0 <s RAMP_STEP_DURATION * RAMP_SIZE * 2" "RAMP_SIZE * 2 \<noteq> 0"
    "MAX_BRIGHTNESS \<noteq> 0"
    by (simp_all add: RAMP_STEP_DURATION_def RAMP_SIZE_def MAX_BRIGHTNESS_def word_sless_alt)
  have quotients: "\<exists>q. sdiv32 onMs (RAMP_SIZE * 2) = Some q"
    "\<exists>q. sdiv32 (i * brightness) 255 = Some q"
    "\<exists>q. udiv32 (c * alpha) 0xff = Some q"
    "\<exists>q. udiv32 (b * mLcdBacklight_second l) MAX_BRIGHTNESS = Some q"
    by (simp_all add: RAMP_SIZE_def MAX_BRIGHTNESS_def sdiv32_16 sdiv32_255 udiv32_def)
  have scale: "\<exists>rgb. setSpeakerLightLocked_scale state = Some rgb"
    using scale_total [of state] by blast
  have backlight: "\<exists>r. setLcdBacklight l state = Some r"
    by (simp add: setLcdBacklight_eq)
  from zero divisors quotients scale backlight getScaledDutyPcts_total [of brightness]
    setBlink_total [of led brightness onMs offMs] setSpeakerLightLocked_total [of l state]
    setSpeakerBatteryLightLocked_total [of l] setLight_total [of l type state]
  show ?thesis
    by blast
qed

text \<open>
  Claim C10. A state whose alpha byte is 0 and whose lower 24 bits are nonzero counts as
  lit, so it is the state applied when it is the notification state, and when it is the
  attention state and the notification state is not lit, whatever the states below it
  are; yet the three channels are driven with the value 0: steady, brightness 0 on each,
  and blinking, a duty list of zeros. A lit battery state is masked by such a
  notification state.
\<close>

theorem zero_alpha_state_masks:
  assumes "byte_of (color state) 3 = 0" and "unat (color state) mod 16777216 \<noteq> 0"
  shows "isLit state \<and>
         setSpeakerLightLocked_scale state = Some (0, 0, 0) \<and>
         setSpeakerLightLocked l state = setSpeakerLightLocked_drive l state 0 0 0 \<and>
         (mNotificationState l = state \<longrightarrow>
            setSpeakerBatteryLightLocked l = setSpeakerLightLocked_drive l state 0 0 0) \<and>
         (\<not> isLit (mNotificationState l) \<and> mAttentionState l = state \<longrightarrow>
            setSpeakerBatteryLightLocked l = setSpeakerLightLocked_drive l state 0 0 0) \<and>
         (flashMode state \<noteq> TIMED \<longrightarrow>
            setSpeakerLightLocked_drive l state 0 0 0 = Some
              [(RgbBlinkStream, ''0''),
               (LedStream (mName (mRedLed l)) mBlink, ''0''),
               (LedStream (mName (mRedLed l)) mBrightness, ''0''),
               (LedStream (mName (mGreenLed l)) mBlink, ''0''),
               (LedStream (mName (mGreenLed l)) mBrightness, ''0''),
               (LedStream (mName (mBlueLed l)) mBlink, ''0''),
               (LedStream (mName (mBlueLed l)) mBrightness, ''0'')]) \<and>
         (\<exists>ws. setBlink led 0 onMs offMs = Some ws \<and>
            ws ! 1 = (LedStream (mName led) mDutyPcts, ''0,0,0,0,0,0,0,0''))"
proof -
  have lit: "isLit state"
    using assms(2) by (simp add: isLit_mod)
  have "unat (drop_bit 24 (color state) AND 0xff) = 0"
    using assms(1) by (simp only: unat_byte3)
  then have alpha: "drop_bit 24 (color state) AND 0xff = 0"
    by (simp only: unat_eq_0)
  have scale: "setSpeakerLightLocked_scale state = Some (0, 0, 0)"
    by (simp add: scale_unfold alpha)
  have applied: "setSpeakerLightLocked l state = setSpeakerLightLocked_drive l state 0 0 0"
    by (simp add: setSpeakerLightLocked_def scale)
  have notif: "mNotificationState l = state \<longrightarrow>
      setSpeakerBatteryLightLocked l = setSpeakerLightLocked_drive l state 0 0 0"
    using lit applied by (auto simp: setSpeakerBatteryLightLocked_def)
  have attn: "\<not> isLit (mNotificationState l) \<and> mAttentionState l = state \<longrightarrow>
      setSpeakerBatteryLightLocked l = setSpeakerLightLocked_drive l state 0 0 0"
    using lit applied by (auto simp: setSpeakerBatteryLightLocked_def)
  have steady: "flashMode state \<noteq> TIMED \<longrightarrow>
      setSpeakerLightLocked_drive l state 0 0 0 = Some
        [(RgbBlinkStream, ''0''),
         (LedStream (mName (mRedLed l)) mBlink, ''0''),
         (LedStream (mName (mRedLed l)) mBrightness, ''0''),
         (LedStream (mName (mGreenLed l)) mBlink, ''0''),
         (LedStream (mName (mGreenLed l)) mBrightness, ''0''),
         (LedStream (mName (mBlueLed l)) mBlink, ''0''),
         (LedStream (mName (mBlueLed l)) mBrightness, ''0'')]"
    by (cases "flashMode state")
       (simp_all add: setSpeakerLightLocked_drive_def setBrightness_def to_string_0)
  have blink: "\<exists>ws. setBlink led 0 onMs offMs = Some ws \<and>
      ws ! 1 = (LedStream (mName led) mDutyPcts, ''0,0,0,0,0,0,0,0'')"
    by (simp add: setBlink_eq getScaledDutyPcts_0)
  from lit scale applied notif attn steady blink show ?thesis
    by blast
qed

theorem zero_alpha_state_masks_witness:
  "byte_of (color masked_state) 3 = 0 \<and> unat (color masked_state) mod 16777216 \<noteq> 0 \<and>
   isLit masked_state \<and> isLit green_state \<and>
   setSpeakerLightLocked sample_light green_state = Some
     [(RgbBlinkStream, ''0''),
      (LedStream ''red'' mBlink, ''0''), (LedStream ''red'' mBrightness, ''0''),
      (LedStream ''green'' mBlink, ''0''), (LedStream ''green'' mBrightness, ''255''),
      (LedStream ''blue'' mBlink, ''0''), (LedStream ''blue'' mBrightness, ''0'')] \<and>
   setSpeakerBatteryLightLocked
     (sample_light\<lparr>mNotificationState := masked_state, mBatteryState := green_state\<rparr>) = Some
     [(RgbBlinkStream, ''0''),
      (LedStream ''red'' mBlink, ''0''), (LedStream ''red'' mBrightness, ''0''),
      (LedStream ''green'' mBlink, ''0''), (LedStream ''green'' mBrightness, ''0''),
      (LedStream ''blue'' mBlink, ''0''), (LedStream ''blue'' mBrightness, ''0'')]"
  using zero_alpha_state_masks [of masked_state
      "sample_light\<lparr>mNotificationState := masked_state, mBatteryState := green_state\<rparr>"]
  by (simp add: masked_state_def green_state_def dark_state_def sample_light_def byte_of_def
      isLit_def setSpeakerLightLocked_def scale_unfold setSpeakerLightLocked_drive_def
      setBrightness_def to_string_def digits10.simps digit_char_def)

end
